theory Spec2Isabelle
  imports Complex_Main "HOL-Library.Word" "HOL-Library.Multiset" "HOL-Library.Signed_Division"
begin

section \<open>Floating-point values\<close>

text \<open>
  Go's \<^verbatim>\<open>float64\<close> is modelled as the real numbers extended by the three special
  values of IEEE-754. Arithmetic on finite values is exact (no rounding, no overflow, no
  signed zero); the special values follow the IEEE rules, so that \<^verbatim>\<open>math.IsNaN\<close>,
  \<^verbatim>\<open>math.IsInf\<close> and \<^verbatim>\<open>math.Sqrt\<close> of a negative number behave as in the program.

  An IEEE operation returns the exact result whenever that result is a binary64 number
  (\<open>representable\<close> below), and only then: the program and the model agree on a
  computation all of whose intermediate results are representable. A statement whose
  truth rests on finite arithmetic says in its hypotheses which results it takes to be
  representable, or how large the operands may be.
\<close>

datatype float64 = Num real | PInf | NInf | NaN


fun IsNaN :: "float64 \<Rightarrow> bool" where
  "IsNaN NaN = True"
| "IsNaN _ = False"

text \<open>\<^verbatim>\<open>math.IsInf(f, 0)\<close>: either infinity.\<close>

fun IsInf :: "float64 \<Rightarrow> bool" where
  "IsInf PInf = True"
| "IsInf NInf = True"
| "IsInf _ = False"

fun is_zero :: "float64 \<Rightarrow> bool" where
  "is_zero (Num a) = (a = 0)"
| "is_zero _ = False"

fun is_neg :: "float64 \<Rightarrow> bool" where
  "is_neg (Num a) = (a < 0)"
| "is_neg NInf = True"
| "is_neg _ = False"

definition signed_inf :: "bool \<Rightarrow> float64" where
  "signed_inf neg = (if neg then NInf else PInf)"

fun fneg :: "float64 \<Rightarrow> float64" where
  "fneg (Num a) = Num (- a)"
| "fneg PInf = NInf"
| "fneg NInf = PInf"
| "fneg NaN = NaN"

fun fadd :: "float64 \<Rightarrow> float64 \<Rightarrow> float64" where
  "fadd (Num a) (Num b) = Num (a + b)"
| "fadd NaN _ = NaN"
| "fadd _ NaN = NaN"
| "fadd PInf NInf = NaN"
| "fadd NInf PInf = NaN"
| "fadd PInf _ = PInf"
| "fadd _ PInf = PInf"
| "fadd NInf _ = NInf"
| "fadd _ NInf = NInf"

definition fsub :: "float64 \<Rightarrow> float64 \<Rightarrow> float64" where
  "fsub a b = fadd a (fneg b)"

fun fmul :: "float64 \<Rightarrow> float64 \<Rightarrow> float64" where
  "fmul (Num a) (Num b) = Num (a * b)"
| "fmul NaN _ = NaN"
| "fmul _ NaN = NaN"
| "fmul x y = (if is_zero x \<or> is_zero y then NaN else signed_inf (is_neg x \<noteq> is_neg y))"

fun fdiv :: "float64 \<Rightarrow> float64 \<Rightarrow> float64" where
  "fdiv (Num a) (Num b) =
     (if b \<noteq> 0 then Num (a / b) else if a = 0 then NaN else signed_inf (a < 0))"
| "fdiv NaN _ = NaN"
| "fdiv _ NaN = NaN"
| "fdiv (Num a) _ = Num 0"
| "fdiv x (Num b) = signed_inf (is_neg x \<noteq> (b < 0))"
| "fdiv _ _ = NaN"

text \<open>\<^verbatim>\<open>math.Sqrt\<close>: NaN below zero.\<close>

fun Sqrt :: "float64 \<Rightarrow> float64" where
  "Sqrt (Num a) = (if a < 0 then NaN else Num (sqrt a))"
| "Sqrt PInf = PInf"
| "Sqrt NInf = NaN"
| "Sqrt NaN = NaN"

text \<open>\<^verbatim>\<open>math.Abs\<close>.\<close>

fun Abs :: "float64 \<Rightarrow> float64" where
  "Abs (Num a) = Num \<bar>a\<bar>"
| "Abs PInf = PInf"
| "Abs NInf = PInf"
| "Abs NaN = NaN"

text \<open>The comparisons \<^verbatim>\<open><\<close> and \<^verbatim>\<open><=\<close>: false as soon as one side is NaN.\<close>

fun flt :: "float64 \<Rightarrow> float64 \<Rightarrow> bool" where
  "flt (Num a) (Num b) = (a < b)"
| "flt NaN _ = False"
| "flt _ NaN = False"
| "flt PInf _ = False"
| "flt _ NInf = False"
| "flt _ _ = True"

fun fle :: "float64 \<Rightarrow> float64 \<Rightarrow> bool" where
  "fle (Num a) (Num b) = (a \<le> b)"
| "fle NaN _ = False"
| "fle _ NaN = False"
| "fle _ PInf = True"
| "fle NInf _ = True"
| "fle _ _ = False"

definition fgt :: "float64 \<Rightarrow> float64 \<Rightarrow> bool" where
  "fgt a b = flt b a"

text \<open>The conversion \<^verbatim>\<open>float64(n)\<close> of an integer.\<close>

definition float64_of_int :: "int \<Rightarrow> float64" where
  "float64_of_int n = Num (real_of_int n)"

section \<open>Package errors\<close>

datatype ErrorType = ValidationError | IOError | NetworkError | GraphQLError | STLError

text \<open>
  A Go \<^verbatim>\<open>error\<close> value that is not nil: a \<^verbatim>\<open>*SkylineError\<close> with its type,
  message and wrapped error, or an error of another package (only its text is kept).
  A nil error is \<open>None\<close>.
\<close>

datatype error = SkylineError ErrorType string "error option" | GoError string

definition New :: "ErrorType \<Rightarrow> string \<Rightarrow> error option \<Rightarrow> error" where
  "New errType message err = SkylineError errType message err"

text \<open>
  \<^verbatim>\<open>Wrap\<close> on an error that is not nil (\<^verbatim>\<open>Wrap(nil, _)\<close> is nil; every call
  in the code modelled here is guarded by \<^verbatim>\<open>err != nil\<close>).
\<close>

fun Wrap :: "error \<Rightarrow> string \<Rightarrow> error" where
  "Wrap (SkylineError t m e) message = SkylineError t (message @ '': '' @ m) e"
| "Wrap (GoError s) message = SkylineError STLError message (Some (GoError s))"

fun errType :: "error \<Rightarrow> ErrorType option" where
  "errType (SkylineError t m e) = Some t"
| "errType (GoError s) = None"

section \<open>Package types\<close>

record ContributionDay =
  ContributionCount :: int
  Date :: string

record Point3D =
  X :: float64
  Y :: float64
  Z :: float64

definition IsValid :: "Point3D \<Rightarrow> bool" where
  "IsValid p \<longleftrightarrow>
     \<not> IsNaN (X p) \<and> \<not> IsInf (X p) \<and>
     \<not> IsNaN (Y p) \<and> \<not> IsInf (Y p) \<and>
     \<not> IsNaN (Z p) \<and> \<not> IsInf (Z p)"

record Triangle =
  Normal :: Point3D
  V1 :: Point3D
  V2 :: Point3D
  V3 :: Point3D

section \<open>Package geometry: vectors\<close>

definition validateVector :: "Point3D \<Rightarrow> error option" where
  "validateVector v =
     (if \<not> IsValid v
      then Some (New ValidationError ''vector contains invalid components'' None)
      else None)"

definition vectorSubtract :: "Point3D \<Rightarrow> Point3D \<Rightarrow> Point3D" where
  "vectorSubtract a b =
     \<lparr>X = fsub (X a) (X b), Y = fsub (Y a) (Y b), Z = fsub (Z a) (Z b)\<rparr>"

definition vectorCross :: "Point3D \<Rightarrow> Point3D \<Rightarrow> Point3D" where
  "vectorCross u v =
     \<lparr>X = fsub (fmul (Y u) (Z v)) (fmul (Z u) (Y v)),
      Y = fsub (fmul (Z u) (X v)) (fmul (X u) (Z v)),
      Z = fsub (fmul (X u) (Y v)) (fmul (Y u) (X v))\<rparr>"

text \<open>
  The constant \<^verbatim>\<open>epsilon = 1e-10\<close> of \<^verbatim>\<open>isZeroVector\<close> as the program compares
  with it: the binary64 number nearest to \<open>1e-10\<close>, which is
  \<open>7737125245533627 / 2^86\<close>.
\<close>

definition eps :: real where
  "eps = 7737125245533627 / 2 ^ 86"

definition epsilon :: float64 where
  "epsilon = Num eps"

definition isZeroVector :: "Point3D \<Rightarrow> bool" where
  "isZeroVector v \<longleftrightarrow>
     flt (Abs (X v)) epsilon \<and> flt (Abs (Y v)) epsilon \<and> flt (Abs (Z v)) epsilon"

definition normalizeVector :: "Point3D \<Rightarrow> Point3D" where
  "normalizeVector v =
     (let length = Sqrt (fadd (fadd (fmul (X v) (X v)) (fmul (Y v) (Y v))) (fmul (Z v) (Z v)))
      in if fgt length (Num 0)
         then \<lparr>X = fdiv (X v) length, Y = fdiv (Y v) length, Z = fdiv (Z v) length\<rparr>
         else v)"

text \<open>
  The loop over \<^verbatim>\<open>[]types.Point3D{p1, p2, p3}\<close> returns at the first invalid point.
\<close>

fun validateAll :: "Point3D list \<Rightarrow> error option" where
  "validateAll [] = None"
| "validateAll (p # ps) =
     (case validateVector p of Some err \<Rightarrow> Some err | None \<Rightarrow> validateAll ps)"

definition calculateNormal :: "Point3D \<Rightarrow> Point3D \<Rightarrow> Point3D \<Rightarrow> error + Point3D" where
  "calculateNormal p1 p2 p3 =
     (case validateAll [p1, p2, p3] of
        Some err \<Rightarrow> Inl err
      | None \<Rightarrow>
          (let u = vectorSubtract p2 p1;
               v = vectorSubtract p3 p1;
               normal = vectorCross u v
           in if isZeroVector normal
              then Inl (New ValidationError ''degenerate triangle'' None)
              else Inr (normalizeVector normal)))"

section \<open>Package geometry: shapes\<close>

definition CreateQuad ::
  "Point3D \<Rightarrow> Point3D \<Rightarrow> Point3D \<Rightarrow> Point3D \<Rightarrow> error + Triangle list" where
  "CreateQuad v1 v2 v3 v4 =
     (case calculateNormal v1 v2 v3 of
        Inl err \<Rightarrow> Inl (Wrap err ''failed to calculate quad normal'')
      | Inr normal \<Rightarrow>
          Inr [\<lparr>Normal = normal, V1 = v1, V2 = v2, V3 = v3\<rparr>,
               \<lparr>Normal = normal, V1 = v1, V2 = v3, V3 = v4\<rparr>])"

text \<open>
  The loop of \<^verbatim>\<open>createBox\<close> over its six quads: the first failing quad ends it with
  an \<^verbatim>\<open>STLError\<close> that wraps the quad's error.
\<close>

fun boxQuads :: "Point3D list \<Rightarrow> (nat \<times> nat \<times> nat \<times> nat) list \<Rightarrow> Triangle list
    \<Rightarrow> error + Triangle list" where
  "boxQuads vertices [] triangles = Inr triangles"
| "boxQuads vertices ((a, b, c, d) # quads) triangles =
     (case CreateQuad (vertices ! a) (vertices ! b) (vertices ! c) (vertices ! d) of
        Inl err \<Rightarrow> Inl (New STLError ''failed to create quad'' (Some err))
      | Inr quadTriangles \<Rightarrow> boxQuads vertices quads (triangles @ quadTriangles))"

definition quads :: "(nat \<times> nat \<times> nat \<times> nat) list" where
  "quads = [(0, 1, 2, 3), (5, 4, 7, 6), (4, 0, 3, 7), (1, 5, 6, 2), (3, 2, 6, 7), (4, 5, 1, 0)]"

definition boxVertices ::
  "float64 \<Rightarrow> float64 \<Rightarrow> float64 \<Rightarrow> float64 \<Rightarrow> float64 \<Rightarrow> float64 \<Rightarrow> Point3D list" where
  "boxVertices x y z width height depth =
     [\<lparr>X = x, Y = y, Z = z\<rparr>,
      \<lparr>X = fadd x width, Y = y, Z = z\<rparr>,
      \<lparr>X = fadd x width, Y = fadd y height, Z = z\<rparr>,
      \<lparr>X = x, Y = fadd y height, Z = z\<rparr>,
      \<lparr>X = x, Y = y, Z = fadd z depth\<rparr>,
      \<lparr>X = fadd x width, Y = y, Z = fadd z depth\<rparr>,
      \<lparr>X = fadd x width, Y = fadd y height, Z = fadd z depth\<rparr>,
      \<lparr>X = x, Y = fadd y height, Z = fadd z depth\<rparr>]"

definition createBox ::
  "float64 \<Rightarrow> float64 \<Rightarrow> float64 \<Rightarrow> float64 \<Rightarrow> float64 \<Rightarrow> float64
    \<Rightarrow> error + Triangle list" where
  "createBox x y z width height depth =
     (if flt width (Num 0) \<or> flt height (Num 0) \<or> flt depth (Num 0)
      then Inl (New ValidationError ''negative dimensions not allowed'' None)
      else boxQuads (boxVertices x y z width height depth) quads [])"

definition BaseHeight :: float64 where "BaseHeight = Num 10"
definition MaxHeight :: float64 where "MaxHeight = Num 25"
definition CellSize :: float64 where "CellSize = Num (5 / 2)"
definition GridSize :: int where "GridSize = 53"
definition MinHeight :: float64 where "MinHeight = CellSize"

definition CreateCuboidBase :: "float64 \<Rightarrow> float64 \<Rightarrow> error + Triangle list" where
  "CreateCuboidBase width depth = createBox (Num 0) (Num 0) (fneg BaseHeight) width depth BaseHeight"

definition CreateColumn ::
  "float64 \<Rightarrow> float64 \<Rightarrow> float64 \<Rightarrow> float64 \<Rightarrow> error + Triangle list" where
  "CreateColumn x y height cellSize = createBox x y (Num 0) cellSize cellSize height"

section \<open>Package geometry: contribution columns\<close>

definition NormalizeContribution :: "int \<Rightarrow> int \<Rightarrow> float64" where
  "NormalizeContribution count' maxCount =
     (if count' = 0 then Num 0
      else if maxCount \<le> 0 then MinHeight
      else
        (let heightRange = fsub MaxHeight MinHeight;
             normalizedValue = fdiv (Sqrt (float64_of_int count')) (Sqrt (float64_of_int maxCount))
         in fadd MinHeight (fmul normalizedValue heightRange)))"

text \<open>
  The inner and the outer loop of \<^verbatim>\<open>geometry.CreateContributionGeometry\<close>, with the
  running indices \<^verbatim>\<open>dayIdx\<close> and \<^verbatim>\<open>weekIdx\<close> and the triangles collected so far.
\<close>

fun columnsOfWeek ::
  "float64 \<Rightarrow> int \<Rightarrow> nat \<Rightarrow> nat \<Rightarrow> ContributionDay list \<Rightarrow> Triangle list
    \<Rightarrow> error + Triangle list" where
  "columnsOfWeek baseYOffset maxContrib weekIdx dayIdx [] triangles = Inr triangles"
| "columnsOfWeek baseYOffset maxContrib weekIdx dayIdx (day # days) triangles =
     (if ContributionCount day > 0
      then
        (let height = NormalizeContribution (ContributionCount day) maxContrib;
             x = fadd CellSize (fmul (float64_of_int (int weekIdx)) CellSize);
             y = fadd baseYOffset (fmul (float64_of_int (int dayIdx)) CellSize)
         in case CreateColumn x y height CellSize of
              Inl err \<Rightarrow> Inl err
            | Inr columnTriangles \<Rightarrow>
                columnsOfWeek baseYOffset maxContrib weekIdx (Suc dayIdx) days
                  (triangles @ columnTriangles))
      else columnsOfWeek baseYOffset maxContrib weekIdx (Suc dayIdx) days triangles)"

fun columnsOfYear ::
  "float64 \<Rightarrow> int \<Rightarrow> nat \<Rightarrow> ContributionDay list list \<Rightarrow> Triangle list
    \<Rightarrow> error + Triangle list" where
  "columnsOfYear baseYOffset maxContrib weekIdx [] triangles = Inr triangles"
| "columnsOfYear baseYOffset maxContrib weekIdx (week # weeks) triangles =
     (case columnsOfWeek baseYOffset maxContrib weekIdx 0 week triangles of
        Inl err \<Rightarrow> Inl err
      | Inr triangles' \<Rightarrow> columnsOfYear baseYOffset maxContrib (Suc weekIdx) weeks triangles')"

definition CreateContributionGeometry ::
  "ContributionDay list list \<Rightarrow> int \<Rightarrow> int \<Rightarrow> error + Triangle list" where
  "CreateContributionGeometry contributions yearIndex maxContrib =
     (let baseYOffset =
            fadd CellSize (fmul (fmul (float64_of_int yearIndex) (Num 7)) CellSize)
      in columnsOfYear baseYOffset maxContrib 0 contributions [])"

definition CalculateMultiYearDimensions :: "int \<Rightarrow> float64 \<times> float64" where
  "CalculateMultiYearDimensions yearCount =
     (fadd (fmul (float64_of_int GridSize) CellSize) (fmul (Num 2) CellSize),
      fadd (fmul (float64_of_int (7 * yearCount)) CellSize) (fmul (Num 2) CellSize))"

section \<open>Package logger\<close>

datatype LogLevel = DEBUG | INFO | WARNING | ERROR

fun levelRank :: "LogLevel \<Rightarrow> nat" where
  "levelRank DEBUG = 0"
| "levelRank INFO = 1"
| "levelRank WARNING = 2"
| "levelRank ERROR = 3"

text \<open>
  What the program takes from outside: the logger's level and what writing a message to
  the stream of each level returns (\<^verbatim>\<open>log.Logger.Output\<close>), the two decorative geometry
  builders, which read a font and an image (\<^verbatim>\<open>Create3DText\<close> and
  \<^verbatim>\<open>GenerateImageGeometry\<close>), the two \<^verbatim>\<open>fmt.Sprintf\<close> formats of the year label,
  and the file writer \<^verbatim>\<open>WriteSTLBinary\<close>.
\<close>

record env =
  level :: LogLevel
  Output :: "LogLevel \<Rightarrow> string \<Rightarrow> error option"
  Create3DText :: "string \<Rightarrow> string \<Rightarrow> float64 \<Rightarrow> float64 \<Rightarrow> error + Triangle list"
  GenerateImageGeometry :: "float64 \<Rightarrow> float64 \<Rightarrow> error + Triangle list"
  SprintfYear :: "int \<Rightarrow> string"
  SprintfYearRange :: "int \<Rightarrow> int \<Rightarrow> string"
  WriteSTLBinary :: "string \<Rightarrow> Triangle list \<Rightarrow> error option"

definition logf :: "env \<Rightarrow> LogLevel \<Rightarrow> string \<Rightarrow> error option" where
  "logf E lvl format =
     (if levelRank (level E) \<le> levelRank lvl then Output E lvl format else None)"

definition Debug :: "env \<Rightarrow> string \<Rightarrow> error option" where
  "Debug E format = logf E DEBUG format"

definition Info :: "env \<Rightarrow> string \<Rightarrow> error option" where
  "Info E format = logf E INFO format"

definition Warning :: "env \<Rightarrow> string \<Rightarrow> error option" where
  "Warning E format = logf E WARNING format"

section \<open>Package stl: the generator\<close>

type_synonym year = "ContributionDay list list"

record modelDimensions =
  innerWidth :: float64
  innerDepth :: float64
  imagePath :: string

definition validateInput :: "year \<Rightarrow> string \<Rightarrow> string \<Rightarrow> error option" where
  "validateInput contributions outputPath username =
     (if length contributions = 0
      then Some (New ValidationError ''contributions data cannot be empty'' None)
      else if int (length contributions) > GridSize
      then Some (New ValidationError ''contributions data exceeds maximum grid size'' None)
      else if outputPath = []
      then Some (New ValidationError ''output path cannot be empty'' None)
      else if username = []
      then Some (New ValidationError ''username cannot be empty'' None)
      else None)"

definition calculateDimensions :: "int \<Rightarrow> error + modelDimensions" where
  "calculateDimensions yearCount =
     (if yearCount \<le> 0
      then Inl (New ValidationError ''year count must be positive'' None)
      else
        (let (width, depth) =
               (if yearCount \<le> 1 then CalculateMultiYearDimensions 1
                else CalculateMultiYearDimensions yearCount);
             dims = \<lparr>innerWidth = width, innerDepth = depth,
                     imagePath = ''assets/invertocat.png''\<rparr>
         in if fle (innerWidth dims) (Num 0) \<or> fle (innerDepth dims) (Num 0)
            then Inl (New ValidationError ''invalid model dimensions'' None)
            else Inr dims))"

definition findMaxContributions :: "year \<Rightarrow> int" where
  "findMaxContributions contributions =
     foldl (\<lambda>maxContrib week.
              foldl (\<lambda>maxContrib day.
                       if ContributionCount day > maxContrib then ContributionCount day
                       else maxContrib)
                maxContrib week)
       0 contributions"

definition findMaxContributionsAcrossYears :: "year list \<Rightarrow> int" where
  "findMaxContributionsAcrossYears contributionsPerYear =
     foldl (\<lambda>maxContrib yearContributions.
              (let yearMax = findMaxContributions yearContributions
               in if yearMax > maxContrib then yearMax else maxContrib))
       0 contributionsPerYear"

record geometryResult =
  triangles :: "Triangle list"
  err :: "error option"

text \<open>
  A producer runs as a goroutine that sends one \<^verbatim>\<open>geometryResult\<close> on its own
  unbuffered channel. What it sends is \<open>Some\<close> result; \<open>None\<close> is a producer that
  returns without sending.
\<close>

definition generateBase :: "env \<Rightarrow> modelDimensions \<Rightarrow> geometryResult option" where
  "generateBase E dims =
     (case CreateCuboidBase (innerWidth dims) (innerDepth dims) of
        Inl e \<Rightarrow>
          (case Warning E ''Failed to generate base geometry: %v. Continuing without base.'' of
             Some logErr \<Rightarrow> Some \<lparr>triangles = [], err = Some logErr\<rparr>
           | None \<Rightarrow> Some \<lparr>triangles = [], err = None\<rparr>)
      | Inr baseTriangles \<Rightarrow> Some \<lparr>triangles = baseTriangles, err = None\<rparr>)"

text \<open>
  The label is the end year, or both years when they differ; Go's \<^verbatim>\<open>%\<close> truncates
  towards zero, as \<open>smod\<close> does.
\<close>

definition generateText ::
  "env \<Rightarrow> string \<Rightarrow> int \<Rightarrow> int \<Rightarrow> modelDimensions \<Rightarrow> geometryResult option" where
  "generateText E username startYear endYear dims =
     (let embossedYear =
            (if startYear \<noteq> endYear then SprintfYearRange E startYear (endYear smod 100)
             else SprintfYear E endYear)
      in case Create3DText E username embossedYear (innerWidth dims) BaseHeight of
           Inl e \<Rightarrow>
             (case Warning E ''Failed to generate text geometry: %v. Continuing without text.'' of
                Some logErr \<Rightarrow> Some \<lparr>triangles = [], err = Some logErr\<rparr>
              | None \<Rightarrow> Some \<lparr>triangles = [], err = None\<rparr>)
         | Inr textTriangles \<Rightarrow> Some \<lparr>triangles = textTriangles, err = None\<rparr>)"

definition generateLogo :: "env \<Rightarrow> modelDimensions \<Rightarrow> geometryResult option" where
  "generateLogo E dims =
     (case GenerateImageGeometry E (innerWidth dims) BaseHeight of
        Inl e \<Rightarrow>
          (case Warning E ''Failed to generate logo geometry: %v. Continuing without logo.'' of
             Some logErr \<Rightarrow> Some \<lparr>triangles = [], err = Some logErr\<rparr>
           | None \<Rightarrow> Some \<lparr>triangles = [], err = None\<rparr>)
      | Inr logoTriangles \<Rightarrow> Some \<lparr>triangles = logoTriangles, err = None\<rparr>)"

text \<open>
  The loop of \<^verbatim>\<open>generateColumnsForYearRange\<close>, from the last year down to the first;
  the counter is \<^verbatim>\<open>i + 1\<close>. A year whose geometry fails is skipped after the warning;
  when the warning itself fails the function returns and nothing is sent.
\<close>

fun yearsLoop :: "env \<Rightarrow> year list \<Rightarrow> int \<Rightarrow> nat \<Rightarrow> Triangle list \<Rightarrow> Triangle list option" where
  "yearsLoop E contributionsPerYear maxContrib 0 yearTriangles = Some yearTriangles"
| "yearsLoop E contributionsPerYear maxContrib (Suc i) yearTriangles =
     (let yearOffset = int (length contributionsPerYear) - 1 - int i
      in case CreateContributionGeometry (contributionsPerYear ! i) yearOffset maxContrib of
           Inl e \<Rightarrow>
             (case Warning E ''Failed to generate column geometry for year %d: %v. Skipping year.'' of
                Some logErr \<Rightarrow> None
              | None \<Rightarrow> yearsLoop E contributionsPerYear maxContrib i yearTriangles)
         | Inr ts \<Rightarrow> yearsLoop E contributionsPerYear maxContrib i (yearTriangles @ ts))"

definition generateColumnsForYearRange :: "env \<Rightarrow> year list \<Rightarrow> int \<Rightarrow> geometryResult option" where
  "generateColumnsForYearRange E contributionsPerYear maxContrib =
     (case yearsLoop E contributionsPerYear maxContrib (length contributionsPerYear) [] of
        None \<Rightarrow> None
      | Some yearTriangles \<Rightarrow> Some \<lparr>triangles = yearTriangles, err = None\<rparr>)"

text \<open>The keys of the \<^verbatim>\<open>channels\<close> map.\<close>

datatype component = Base | Columns | Text | Image

fun componentName :: "component \<Rightarrow> string" where
  "componentName Base = ''base''"
| "componentName Columns = ''columns''"
| "componentName Text = ''text''"
| "componentName Image = ''image''"

text \<open>
  How a call ends: it returns a value, it panics, or it waits forever on a channel on
  which nothing will be sent.
\<close>

datatype 'a outcome = Returns 'a | Panics | Blocks

text \<open>
  The collecting loop \<^verbatim>\<open>for componentName := range channels\<close>. Go leaves the order in
  which a map is ranged over open, so the order is a parameter: a list that holds each
  of the four keys once. Every channel is unbuffered and read by its own key, so the order
  in which the producers finish has no influence.
\<close>

fun collect ::
  "(component \<Rightarrow> geometryResult option) \<Rightarrow> component list \<Rightarrow> Triangle list
    \<Rightarrow> (error + Triangle list) outcome" where
  "collect channels [] modelTriangles = Returns (Inr modelTriangles)"
| "collect channels (c # cs) modelTriangles =
     (case channels c of
        None \<Rightarrow> Blocks
      | Some r \<Rightarrow>
          (case err r of
             Some e \<Rightarrow>
               Returns (Inl (Wrap e (''failed to generate '' @ componentName c @ '' geometry'')))
           | None \<Rightarrow> collect channels cs (modelTriangles @ triangles r)))"

definition producers ::
  "env \<Rightarrow> year list \<Rightarrow> modelDimensions \<Rightarrow> int \<Rightarrow> string \<Rightarrow> int \<Rightarrow> int
    \<Rightarrow> component \<Rightarrow> geometryResult option" where
  "producers E contributionsPerYear dims maxContrib username startYear endYear c =
     (case c of
        Base \<Rightarrow> generateBase E dims
      | Columns \<Rightarrow> generateColumnsForYearRange E contributionsPerYear maxContrib
      | Text \<Rightarrow> generateText E username startYear endYear dims
      | Image \<Rightarrow> generateLogo E dims)"

text \<open>
  \<^verbatim>\<open>generateModelGeometry\<close> starts the four producers and collects their results. The
  capacity it reserves for the result (\<^verbatim>\<open>estimateTriangleCount\<close>) has no influence on
  what it returns and is left out.
\<close>

definition generateModelGeometry ::
  "env \<Rightarrow> component list \<Rightarrow> year list \<Rightarrow> modelDimensions \<Rightarrow> int \<Rightarrow> string \<Rightarrow> int \<Rightarrow> int
    \<Rightarrow> (error + Triangle list) outcome" where
  "generateModelGeometry E order contributionsPerYear dims maxContrib username startYear endYear =
     (if length contributionsPerYear = 0
      then Returns (Inl (New ValidationError ''contributions data cannot be empty'' None))
      else collect (producers E contributionsPerYear dims maxContrib username startYear endYear)
             order [])"

text \<open>
  The calls a run of \<^verbatim>\<open>GenerateSTLRange\<close> makes, in order, with their arguments: the
  run's effects next to what it returns.
\<close>

datatype call =
  CallValidateInput year
| CallGenerateModelGeometry "year list" modelDimensions int
| CallWriteSTLBinary string "Triangle list"

record run =
  result :: "error option outcome"
  calls :: "call list"

definition writeModel :: "env \<Rightarrow> string \<Rightarrow> call list \<Rightarrow> Triangle list \<Rightarrow> run" where
  "writeModel E outputPath cs modelTriangles =
     (case Info E ''Model generation complete: %d total triangles'' of
        Some e \<Rightarrow> \<lparr>result = Returns (Some (Wrap e ''failed to log info message'')), calls = cs\<rparr>
      | None \<Rightarrow>
     (case Debug E ''Writing STL file to: %s'' of
        Some e \<Rightarrow> \<lparr>result = Returns (Some (Wrap e ''failed to log debug message'')), calls = cs\<rparr>
      | None \<Rightarrow>
     (case WriteSTLBinary E outputPath modelTriangles of
        Some e \<Rightarrow>
          \<lparr>result = Returns (Some (Wrap e ''failed to write STL file'')),
           calls = cs @ [CallWriteSTLBinary outputPath modelTriangles]\<rparr>
      | None \<Rightarrow>
     (case Info E ''STL file written successfully to: %s'' of
        Some e \<Rightarrow>
          \<lparr>result = Returns (Some (Wrap e ''failed to log info message'')),
           calls = cs @ [CallWriteSTLBinary outputPath modelTriangles]\<rparr>
      | None \<Rightarrow>
          \<lparr>result = Returns None,
           calls = cs @ [CallWriteSTLBinary outputPath modelTriangles]\<rparr>))))"

definition GenerateSTLRange ::
  "env \<Rightarrow> component list \<Rightarrow> year list \<Rightarrow> string \<Rightarrow> string \<Rightarrow> int \<Rightarrow> int \<Rightarrow> run" where
  "GenerateSTLRange E order contributions outputPath username startYear endYear =
     (case Debug E ''Starting STL generation for user %s, years %d-%d'' of
        Some e \<Rightarrow> \<lparr>result = Returns (Some (Wrap e ''failed to log debug message'')), calls = []\<rparr>
      | None \<Rightarrow>
     (case contributions of
        [] \<Rightarrow> \<lparr>result = Panics, calls = []\<rparr>
      | first # later \<Rightarrow>
     (case validateInput first outputPath username of
        Some e \<Rightarrow>
          \<lparr>result = Returns (Some (Wrap e ''input validation failed'')),
           calls = [CallValidateInput first]\<rparr>
      | None \<Rightarrow>
     (case calculateDimensions (int (length contributions)) of
        Inl e \<Rightarrow>
          \<lparr>result = Returns (Some (Wrap e ''failed to calculate dimensions'')),
           calls = [CallValidateInput first]\<rparr>
      | Inr dimensions \<Rightarrow>
     (let maxContribution = findMaxContributionsAcrossYears contributions;
          cs = [CallValidateInput first,
                CallGenerateModelGeometry contributions dimensions maxContribution]
      in case generateModelGeometry E order contributions dimensions maxContribution
                username startYear endYear of
           Blocks \<Rightarrow> \<lparr>result = Blocks, calls = cs\<rparr>
         | Panics \<Rightarrow> \<lparr>result = Panics, calls = cs\<rparr>
         | Returns (Inl e) \<Rightarrow>
             \<lparr>result = Returns (Some (Wrap e ''failed to generate geometry'')), calls = cs\<rparr>
         | Returns (Inr modelTriangles) \<Rightarrow> writeModel E outputPath cs modelTriangles)))))"

definition GenerateSTL ::
  "env \<Rightarrow> component list \<Rightarrow> year \<Rightarrow> string \<Rightarrow> string \<Rightarrow> int \<Rightarrow> run" where
  "GenerateSTL E order contributions outputPath username yr =
     GenerateSTLRange E order [contributions] outputPath username yr yr"


section \<open>Notation for the statements\<close>

text \<open>A point with finite coordinates, and the twelve triangles of a box.\<close>

definition pt :: "real \<Rightarrow> real \<Rightarrow> real \<Rightarrow> Point3D" where
  "pt a b c = \<lparr>X = Num a, Y = Num b, Z = Num c\<rparr>"

definition boxTriangles :: "real \<Rightarrow> real \<Rightarrow> real \<Rightarrow> real \<Rightarrow> real \<Rightarrow> real \<Rightarrow> Triangle list" where
  "boxTriangles x y z w h d =
    [\<lparr>Normal = pt 0 0 1, V1 = pt x y z, V2 = pt (x + w) y z, V3 = pt (x + w) (y + h) z\<rparr>,
     \<lparr>Normal = pt 0 0 1, V1 = pt x y z, V2 = pt (x + w) (y + h) z, V3 = pt x (y + h) z\<rparr>,
     \<lparr>Normal = pt 0 0 (- 1), V1 = pt (x + w) y (z + d), V2 = pt x y (z + d),
      V3 = pt x (y + h) (z + d)\<rparr>,
     \<lparr>Normal = pt 0 0 (- 1), V1 = pt (x + w) y (z + d), V2 = pt x (y + h) (z + d),
      V3 = pt (x + w) (y + h) (z + d)\<rparr>,
     \<lparr>Normal = pt 1 0 0, V1 = pt x y (z + d), V2 = pt x y z, V3 = pt x (y + h) z\<rparr>,
     \<lparr>Normal = pt 1 0 0, V1 = pt x y (z + d), V2 = pt x (y + h) z, V3 = pt x (y + h) (z + d)\<rparr>,
     \<lparr>Normal = pt (- 1) 0 0, V1 = pt (x + w) y z, V2 = pt (x + w) y (z + d),
      V3 = pt (x + w) (y + h) (z + d)\<rparr>,
     \<lparr>Normal = pt (- 1) 0 0, V1 = pt (x + w) y z, V2 = pt (x + w) (y + h) (z + d),
      V3 = pt (x + w) (y + h) z\<rparr>,
     \<lparr>Normal = pt 0 (- 1) 0, V1 = pt x (y + h) z, V2 = pt (x + w) (y + h) z,
      V3 = pt (x + w) (y + h) (z + d)\<rparr>,
     \<lparr>Normal = pt 0 (- 1) 0, V1 = pt x (y + h) z, V2 = pt (x + w) (y + h) (z + d),
      V3 = pt x (y + h) (z + d)\<rparr>,
     \<lparr>Normal = pt 0 1 0, V1 = pt x y (z + d), V2 = pt (x + w) y (z + d), V3 = pt (x + w) y z\<rparr>,
     \<lparr>Normal = pt 0 1 0, V1 = pt x y (z + d), V2 = pt (x + w) y z, V3 = pt x y z\<rparr>]"

text \<open>The set of the vertices of a list of triangles.\<close>

definition vertices :: "Triangle list \<Rightarrow> Point3D set" where
  "vertices ts = (\<Union>t \<in> set ts. {V1 t, V2 t, V3 t})"






text \<open>
  A value that is not finite, or a finite one of magnitude at most \<open>2^1000\<close>: sums and
  differences of two or three such values do not overflow.
\<close>

fun moderate :: "float64 \<Rightarrow> bool" where
  "moderate (Num a) = (\<bar>a\<bar> \<le> 2 ^ 1000)"
| "moderate _ = True"

section \<open>Single precision and the binary mesh file\<close>

text \<open>
  A \<^verbatim>\<open>float32\<close> is kept as its 32 bits. The conversion \<^verbatim>\<open>float32(x)\<close> of a
  \<^verbatim>\<open>float64\<close> is a parameter \<open>cvt\<close> of \<^verbatim>\<open>ToFloat32\<close>.
\<close>

type_synonym float32 = "32 word"

type_synonym byte = "8 word"

record Point3DFloat32 =
  X32 :: float32
  Y32 :: float32
  Z32 :: float32

record TriangleFloat32 =
  Normal32 :: Point3DFloat32
  V1_32 :: Point3DFloat32
  V2_32 :: Point3DFloat32
  V3_32 :: Point3DFloat32

definition Point3D_ToFloat32 :: "(float64 \<Rightarrow> float32) \<Rightarrow> Point3D \<Rightarrow> Point3DFloat32" where
  "Point3D_ToFloat32 cvt p = \<lparr>X32 = cvt (X p), Y32 = cvt (Y p), Z32 = cvt (Z p)\<rparr>"

definition Triangle_ToFloat32 :: "(float64 \<Rightarrow> float32) \<Rightarrow> Triangle \<Rightarrow> TriangleFloat32" where
  "Triangle_ToFloat32 cvt t =
     \<lparr>Normal32 = Point3D_ToFloat32 cvt (Normal t),
      V1_32 = Point3D_ToFloat32 cvt (V1 t),
      V2_32 = Point3D_ToFloat32 cvt (V2 t),
      V3_32 = Point3D_ToFloat32 cvt (V3 t)\<rparr>"

text \<open>Four bytes, least significant first, and back.\<close>

definition le32 :: "32 word \<Rightarrow> byte list" where
  "le32 w = [ucast w, ucast (drop_bit 8 w), ucast (drop_bit 16 w), ucast (drop_bit 24 w)]"

fun le32_decode :: "byte list \<Rightarrow> 32 word" where
  "le32_decode [b0, b1, b2, b3] =
     or (ucast b0) (or (push_bit 8 (ucast b1)) (or (push_bit 16 (ucast b2)) (push_bit 24 (ucast b3))))"
| "le32_decode _ = 0"

text \<open>
  Modelled from the spec: the three 4-byte components of a point in the record of a
  triangle (part of \<^verbatim>\<open>WriteSTLBinary\<close>, which is not among the source files).
\<close>

definition pointBytes :: "Point3DFloat32 \<Rightarrow> byte list" where
  "pointBytes p = le32 (X32 p) @ le32 (Y32 p) @ le32 (Z32 p)"

text \<open>
  Modelled from the spec: the binary mesh serializer (\<^verbatim>\<open>WriteSTLBinary\<close>, section 4.6 of
  the specification), whose source is not among the files. One record of 50 bytes for a
  triangle: the normal, the three vertices, each component a 4-byte single-precision
  value converted from the double-precision source here, and the 2-byte attribute
  field written as zero.
\<close>

definition triangleRecord :: "(float64 \<Rightarrow> float32) \<Rightarrow> Triangle \<Rightarrow> byte list" where
  "triangleRecord cvt t =
     (let t32 = Triangle_ToFloat32 cvt t
      in pointBytes (Normal32 t32) @ pointBytes (V1_32 t32) @ pointBytes (V2_32 t32) @
         pointBytes (V3_32 t32) @ [0, 0])"

text \<open>
  Modelled from the spec: the file written by the binary mesh serializer
  (\<^verbatim>\<open>WriteSTLBinary\<close>, not among the source files). An 80-byte header (free-form: the
  given text, cut or filled with zero bytes to 80), the triangle count as a 4-byte unsigned
  little-endian integer, then the records.
\<close>

definition stlBytes :: "(float64 \<Rightarrow> float32) \<Rightarrow> byte list \<Rightarrow> Triangle list \<Rightarrow> byte list" where
  "stlBytes cvt header ts =
     take 80 (header @ replicate 80 0) @ le32 (word_of_nat (length ts)) @
     concat (map (triangleRecord cvt) ts)"

text \<open>
  Reading a file back: the \<open>i\<close>-th record, the \<open>k\<close>-th 4-byte field of a record, and the
  twelve double-precision components of a triangle in the order of the record.
\<close>

definition recordAt :: "byte list \<Rightarrow> nat \<Rightarrow> byte list" where
  "recordAt bytes i = take 50 (drop (84 + 50 * i) bytes)"

definition fieldAt :: "byte list \<Rightarrow> nat \<Rightarrow> 32 word" where
  "fieldAt r k = le32_decode (take 4 (drop (4 * k) r))"

definition components :: "Triangle \<Rightarrow> float64 list" where
  "components t =
     [X (Normal t), Y (Normal t), Z (Normal t), X (V1 t), Y (V1 t), Z (V1 t),
      X (V2 t), Y (V2 t), Z (V2 t), X (V3 t), Y (V3 t), Z (V3 t)]"

section \<open>Concrete runs\<close>

text \<open>
  An environment in which nothing fails: every log call succeeds, the two decorative
  builders return no triangle, the file is written. A day without contributions and a
  year of one such week.
\<close>

definition quietEnv :: env where
  "quietEnv =
     \<lparr>level = INFO,
      Output = (\<lambda>lvl msg. None),
      Create3DText = (\<lambda>username label width height. Inr []),
      GenerateImageGeometry = (\<lambda>width height. Inr []),
      SprintfYear = (\<lambda>y. ''2023''),
      SprintfYearRange = (\<lambda>y1 y2. ''2021-23''),
      WriteSTLBinary = (\<lambda>path ts. None)\<rparr>"

definition emptyDay :: ContributionDay where
  "emptyDay = \<lparr>ContributionCount = 0, Date = ''2023-01-01''\<rparr>"

definition emptyYear :: year where
  "emptyYear = [replicate 7 emptyDay]"



definition emblemTriangle :: Triangle where
  "emblemTriangle = \<lparr>Normal = pt 0 0 1, V1 = pt 0 0 0, V2 = pt 1 0 0, V3 = pt 0 1 0\<rparr>"

definition emblemEnv :: env where
  "emblemEnv = quietEnv \<lparr>GenerateImageGeometry := (\<lambda>width height. Inr [emblemTriangle])\<rparr>"


definition yearDims :: "nat \<Rightarrow> modelDimensions" where
  "yearDims n =
     \<lparr>innerWidth = Num (275 / 2), innerDepth = Num (35 / 2 * real n + 5),
      imagePath = ''assets/invertocat.png''\<rparr>"


text \<open>What a producer contributes to the model: the triangles it sends, if it sends.\<close>

definition contribution :: "(component \<Rightarrow> geometryResult option) \<Rightarrow> component \<Rightarrow> Triangle list" where
  "contribution channels c = (case channels c of None \<Rightarrow> [] | Some r \<Rightarrow> triangles r)"

section \<open>Binary64 numbers\<close>







lemma eps_pos: "0 < eps"
  by (simp add: eps_def)

section \<open>Boxes\<close>

text \<open>
  A box with finite corner and sizes, no size negative, and each face's area at least
  the threshold: every quad has a normal, and the result is the list \<open>boxTriangles\<close>.
\<close>

lemma createBox_Num:
  assumes "0 \<le> w" "0 \<le> h" "0 \<le> d"
    and "eps \<le> w * h" "eps \<le> h * d" "eps \<le> w * d"
  shows "createBox (Num x) (Num y) (Num z) (Num w) (Num h) (Num d)
           = Inr (boxTriangles x y z w h d)"
proof -
  have big: "\<not> w * h < eps" "\<not> h * d < eps" "\<not> w * d < eps"
    "\<not> h * w < eps" "\<not> d * h < eps" "\<not> d * w < eps"
    using assms by (simp_all add: mult.commute)
  have "0 < w * h" "0 < h * d"
    using assms(4,5) eps_pos by linarith+
  then have pos: "w \<noteq> 0" "h \<noteq> 0" "d \<noteq> 0" "0 < w" "0 < h" "0 < d"
    using assms(1-3) by (auto simp: less_le)
  show ?thesis
    using assms big pos
    by (simp add: createBox_def boxVertices_def quads_def CreateQuad_def calculateNormal_def
        validateVector_def IsValid_def vectorSubtract_def vectorCross_def isZeroVector_def
        epsilon_def normalizeVector_def fsub_def fgt_def New_def Let_def boxTriangles_def
        pt_def abs_mult)
qed











section \<open>The binary mesh file\<close>

lemma le32_roundtrip: "le32_decode (le32 w) = w"
  unfolding le32_def le32_decode.simps
  apply (rule bit_word_eqI)
  apply (auto simp add: bit_simps)
  subgoal for n by (cases "n < 24") auto
  done

lemma le32_length: "length (le32 w) = 4"
  by (simp add: le32_def)

lemma triangleRecord_length: "length (triangleRecord cvt t) = 50"
  by (simp add: triangleRecord_def pointBytes_def le32_length Let_def)

lemma concat_chunks:
  "(\<forall>x \<in> set xs. length x = n) \<Longrightarrow> i < length xs \<Longrightarrow> take n (drop (n * i) (concat xs)) = xs ! i"
proof (induction xs arbitrary: i)
  case Nil
  then show ?case by simp
next
  case (Cons a xs)
  show ?case
  proof (cases i)
    case 0
    with Cons.prems show ?thesis by simp
  next
    case (Suc j)
    with Cons show ?thesis by simp
  qed
qed

lemma length_concat_chunks:
  "(\<forall>x \<in> set xs. length x = n) \<Longrightarrow> length (concat xs) = n * length xs"
  by (induction xs) auto

lemma header_length: "length (take 80 (header @ replicate 80 (0::byte))) = 80"
  by simp

lemma stlBytes_length: "length (stlBytes cvt header ts) = 84 + 50 * length ts"
proof -
  have "length (concat (map (triangleRecord cvt) ts)) = 50 * length ts"
    using length_concat_chunks [of "map (triangleRecord cvt) ts" 50]
    by (simp add: triangleRecord_length)
  then show ?thesis
    by (simp add: stlBytes_def le32_length)
qed

lemma stlBytes_count:
  "le32_decode (take 4 (drop 80 (stlBytes cvt header ts))) = word_of_nat (length ts)"
proof -
  have "drop 80 (stlBytes cvt header ts)
          = le32 (word_of_nat (length ts)) @ concat (map (triangleRecord cvt) ts)"
    unfolding stlBytes_def using header_length [of header]
    by (metis append_eq_conv_conj)
  then show ?thesis
    by (simp add: le32_length le32_roundtrip)
qed

lemma stlBytes_record:
  assumes "i < length ts"
  shows "recordAt (stlBytes cvt header ts) i = triangleRecord cvt (ts ! i)"
proof -
  let ?h = "take 80 (header @ replicate 80 (0::byte)) @ le32 (word_of_nat (length ts))"
  have len: "length ?h = 84"
    by (simp add: le32_length)
  have "drop (84 + 50 * i) (stlBytes cvt header ts)
          = drop (50 * i) (concat (map (triangleRecord cvt) ts))"
  proof -
    have "stlBytes cvt header ts = ?h @ concat (map (triangleRecord cvt) ts)"
      by (simp add: stlBytes_def)
    then show ?thesis
      using len by (metis add.commute append_eq_conv_conj drop_drop)
  qed
  then show ?thesis
    using assms concat_chunks [of "map (triangleRecord cvt) ts" 50 i]
    by (simp add: recordAt_def triangleRecord_length)
qed

lemma triangleRecord_fields:
  "map (fieldAt (triangleRecord cvt t)) [0 ..< 12] = map cvt (components t)"
  by (simp add: fieldAt_def triangleRecord_def pointBytes_def Triangle_ToFloat32_def
      Point3D_ToFloat32_def components_def le32_length le32_roundtrip Let_def upt_rec)

lemma triangleRecord_attribute: "drop 48 (triangleRecord cvt t) = [0, 0]"
  by (simp add: triangleRecord_def pointBytes_def le32_length Let_def)

text \<open>
  C9: the file of \<open>N\<close> triangles has exactly \<open>84 + 50 * N\<close> bytes: the 80 bytes of the
  header, the count as a 4-byte little-endian unsigned integer, equal to \<open>N\<close> (for every
  \<open>N\<close> that fits 32 bits), and for each triangle a 50-byte record whose twelve 4-byte
  fields are the components of the normal and of the three vertices, each the
  single-precision conversion of the double-precision source, followed by the two zero
  bytes of the attribute field.
\<close>

theorem stlBytes_layout:
  "length (stlBytes cvt header ts) = 84 + 50 * length ts \<and>
   take 80 (stlBytes cvt header ts) = take 80 (header @ replicate 80 0) \<and>
   le32_decode (take 4 (drop 80 (stlBytes cvt header ts))) = word_of_nat (length ts) \<and>
   (length ts < 2 ^ 32 \<longrightarrow>
      unat (le32_decode (take 4 (drop 80 (stlBytes cvt header ts)))) = length ts) \<and>
   (i < length ts \<longrightarrow>
      length (recordAt (stlBytes cvt header ts) i) = 50 \<and>
      map (fieldAt (recordAt (stlBytes cvt header ts) i)) [0 ..< 12]
        = map cvt (components (ts ! i)) \<and>
      drop 48 (recordAt (stlBytes cvt header ts) i) = [0, 0])"
proof -
  have "unat (word_of_nat (length ts) :: 32 word) = length ts" if "length ts < 2 ^ 32"
    using that by (simp add: unat_of_nat)
  moreover have "take 80 (stlBytes cvt header ts) = take 80 (header @ replicate 80 0)"
    unfolding stlBytes_def using header_length [of header]
    by (metis append_eq_conv_conj)
  ultimately show ?thesis
    by (simp add: stlBytes_length stlBytes_count stlBytes_record triangleRecord_length
        triangleRecord_fields triangleRecord_attribute)
qed

theorem stlBytes_layout_witness:
  "length (stlBytes (\<lambda>x. if x = Num 1 then 1065353216 else 0) [] [\<lparr>Normal = pt 0 0 1, V1 = pt 0 0 0, V2 = pt 1 0 0, V3 = pt 0 1 0\<rparr>]) = 134 \<and>
   unat (le32_decode (take 4 (drop 80 (stlBytes (\<lambda>x. if x = Num 1 then 1065353216 else 0) []
      [\<lparr>Normal = pt 0 0 1, V1 = pt 0 0 0, V2 = pt 1 0 0, V3 = pt 0 1 0\<rparr>])))) = 1 \<and>
   map (fieldAt (recordAt (stlBytes (\<lambda>x. if x = Num 1 then 1065353216 else 0) []
      [\<lparr>Normal = pt 0 0 1, V1 = pt 0 0 0, V2 = pt 1 0 0, V3 = pt 0 1 0\<rparr>]) 0)) [0 ..< 12]
     = [0, 0, 1065353216, 0, 0, 0, 1065353216, 0, 0, 0, 1065353216, 0]"
  using stlBytes_layout [of "\<lambda>x. if x = Num 1 then 1065353216 else 0" "[]"
      "[\<lparr>Normal = pt 0 0 1, V1 = pt 0 0 0, V2 = pt 1 0 0, V3 = pt 0 1 0\<rparr>]" 0]
  by (simp add: components_def pt_def)

section \<open>Column heights\<close>

lemma NormalizeContribution_zero: "NormalizeContribution 0 m = Num 0"
  by (simp add: NormalizeContribution_def)

lemma NormalizeContribution_no_max:
  "c \<noteq> 0 \<Longrightarrow> m \<le> 0 \<Longrightarrow> NormalizeContribution c m = MinHeight"
  by (simp add: NormalizeContribution_def)

lemma NormalizeContribution_formula:
  "0 < c \<Longrightarrow> 0 < m \<Longrightarrow>
   NormalizeContribution c m
     = Num (5 / 2 + sqrt (real_of_int c) / sqrt (real_of_int m) * (25 - 5 / 2))"
  by (simp add: NormalizeContribution_def MinHeight_def CellSize_def MaxHeight_def
      float64_of_int_def fsub_def)

lemma NormalizeContribution_mono:
  assumes "0 \<le> c1" "c1 \<le> c2"
  shows "fle (NormalizeContribution c1 m) (NormalizeContribution c2 m)"
proof (cases "c1 = 0")
  case True
  show ?thesis
  proof (cases "c2 = 0")
    case True
    with \<open>c1 = 0\<close> show ?thesis by (simp add: NormalizeContribution_zero)
  next
    case False
    with assms have "0 < c2" by simp
    show ?thesis
    proof (cases "m \<le> 0")
      case True
      with \<open>0 < c2\<close> \<open>c1 = 0\<close> show ?thesis
        by (simp add: NormalizeContribution_zero NormalizeContribution_no_max MinHeight_def
            CellSize_def)
    next
      case False
      then have "0 < m" by simp
      have "0 \<le> sqrt (real_of_int c2) / sqrt (real_of_int m) * (25 - 5 / 2)"
        using \<open>0 < c2\<close> \<open>0 < m\<close> by simp
      with \<open>0 < c2\<close> \<open>0 < m\<close> \<open>c1 = 0\<close> show ?thesis
        by (simp add: NormalizeContribution_zero NormalizeContribution_formula)
    qed
  qed
next
  case False
  with assms have pos: "0 < c1" "0 < c2" by simp_all
  show ?thesis
  proof (cases "m \<le> 0")
    case True
    with pos show ?thesis
      by (simp add: NormalizeContribution_no_max MinHeight_def CellSize_def)
  next
    case False
    then have "0 < m" by simp
    have "sqrt (real_of_int c1) \<le> sqrt (real_of_int c2)"
      using assms by simp
    then have "sqrt (real_of_int c1) / sqrt (real_of_int m) \<le> sqrt (real_of_int c2) / sqrt (real_of_int m)"
      using \<open>0 < m\<close> by (intro divide_right_mono) simp_all
    then have "sqrt (real_of_int c1) / sqrt (real_of_int m) * (25 - 5 / 2)
                 \<le> sqrt (real_of_int c2) / sqrt (real_of_int m) * (25 - 5 / 2)"
      by (intro mult_right_mono) simp_all
    with pos \<open>0 < m\<close> show ?thesis
      by (simp only: NormalizeContribution_formula fle.simps add_le_cancel_left)
  qed
qed

text \<open>
  C2, as stated for every count, fails on the negative ones. With no maximum
  (\<open>maxCount \<le> 0\<close>) a negative count gets \<open>MinHeight\<close>, which is neither the
  square-root formula nor \<open>MaxHeight\<close> when \<open>count = maxCount\<close>, and which lies above the
  height 0 of the larger count 0: the height is not monotone there.
\<close>

theorem NormalizeContribution_negative_count:
  "NormalizeContribution (- 1) (- 1) = Num (5 / 2) \<and> MaxHeight = Num 25 \<and>
   NormalizeContribution (- 1) 0 = Num (5 / 2) \<and> NormalizeContribution 0 0 = Num 0 \<and>
   \<not> fle (NormalizeContribution (- 1) 0) (NormalizeContribution 0 0)"
  by (simp add: NormalizeContribution_def MinHeight_def CellSize_def MaxHeight_def)

text \<open>
  C2, as amended: for every count that is not negative and every maxCount, the height is
  0 when \<open>count = 0\<close>; it is \<open>MinHeight\<close> when \<open>count > 0\<close> and \<open>maxCount \<le> 0\<close>;
  otherwise it is \<open>MinHeight + sqrt count / sqrt maxCount * (MaxHeight - MinHeight)\<close>,
  so that \<open>count = maxCount\<close> gives exactly \<open>MaxHeight\<close>; and for a fixed maxCount the
  height does not decrease when the count grows.
\<close>

theorem NormalizeContribution_spec:
  "NormalizeContribution 0 m = Num 0 \<and>
   (0 < c \<and> m \<le> 0 \<longrightarrow> NormalizeContribution c m = MinHeight) \<and>
   (0 < c \<and> 0 < m \<longrightarrow>
      NormalizeContribution c m
        = fadd MinHeight
            (fmul (Num (sqrt (real_of_int c) / sqrt (real_of_int m))) (fsub MaxHeight MinHeight)) \<and>
      NormalizeContribution m m = MaxHeight) \<and>
   (0 \<le> c1 \<and> c1 \<le> c2 \<longrightarrow> fle (NormalizeContribution c1 m) (NormalizeContribution c2 m))"
  by (simp add: NormalizeContribution_zero NormalizeContribution_no_max
      NormalizeContribution_formula NormalizeContribution_mono
      MinHeight_def CellSize_def MaxHeight_def fsub_def)

theorem NormalizeContribution_spec_witness:
  "NormalizeContribution 0 4 = Num 0 \<and> NormalizeContribution 4 0 = MinHeight \<and>
   NormalizeContribution 4 4 = MaxHeight \<and>
   NormalizeContribution 1 4 = Num (55 / 4) \<and>
   fle (NormalizeContribution 1 4) (NormalizeContribution 4 4)"
  using NormalizeContribution_spec [of 4 4 1 4] NormalizeContribution_spec [of 0 4 1 4]
    NormalizeContribution_spec [of 4 1 1 4]
  by (simp add: MinHeight_def CellSize_def MaxHeight_def fsub_def)

section \<open>Normals and quads\<close>

lemma IsValid_pt: "IsValid p \<longleftrightarrow> (\<exists>a b c. p = pt a b c)"
proof
  assume v: "IsValid p"
  obtain a where a: "X p = Num a"
    using v by (cases "X p") (simp_all add: IsValid_def)
  obtain b where b: "Y p = Num b"
    using v by (cases "Y p") (simp_all add: IsValid_def)
  obtain c where c: "Z p = Num c"
    using v by (cases "Z p") (simp_all add: IsValid_def)
  have "p = pt a b c"
    using a b c by (simp add: pt_def)
  then show "\<exists>a b c. p = pt a b c" by blast
next
  assume "\<exists>a b c. p = pt a b c"
  then show "IsValid p"
    by (auto simp add: pt_def IsValid_def)
qed

lemma calculateNormal_invalid:
  "\<not> IsValid p1 \<or> \<not> IsValid p2 \<or> \<not> IsValid p3 \<Longrightarrow>
   calculateNormal p1 p2 p3
     = Inl (SkylineError ValidationError ''vector contains invalid components'' None)"
  by (auto simp add: calculateNormal_def validateVector_def New_def)

lemma calculateNormal_valid:
  "IsValid p1 \<Longrightarrow> IsValid p2 \<Longrightarrow> IsValid p3 \<Longrightarrow>
   calculateNormal p1 p2 p3
     = (if isZeroVector (vectorCross (vectorSubtract p2 p1) (vectorSubtract p3 p1))
        then Inl (SkylineError ValidationError ''degenerate triangle'' None)
        else Inr (normalizeVector (vectorCross (vectorSubtract p2 p1) (vectorSubtract p3 p1))))"
  by (simp add: calculateNormal_def validateVector_def New_def Let_def)

lemma cross_pt:
  "vectorCross (vectorSubtract (pt b1 b2 b3) (pt a1 a2 a3)) (vectorSubtract (pt c1 c2 c3) (pt a1 a2 a3))
     = pt ((b2 - a2) * (c3 - a3) - (b3 - a3) * (c2 - a2))
          ((b3 - a3) * (c1 - a1) - (b1 - a1) * (c3 - a3))
          ((b1 - a1) * (c2 - a2) - (b2 - a2) * (c1 - a1))"
  by (simp add: vectorCross_def vectorSubtract_def pt_def fsub_def)

lemma isZeroVector_pt:
  "isZeroVector (pt a b c) \<longleftrightarrow> \<bar>a\<bar> < eps \<and> \<bar>b\<bar> < eps \<and> \<bar>c\<bar> < eps"
  by (simp add: isZeroVector_def pt_def epsilon_def)

lemma sum_squares_pos:
  fixes a b c :: real
  assumes "a \<noteq> 0 \<or> b \<noteq> 0 \<or> c \<noteq> 0"
  shows "0 < a * a + b * b + c * c"
proof -
  have "0 \<le> a * a" "0 \<le> b * b" "0 \<le> c * c" by simp_all
  moreover have "0 < a * a \<or> 0 < b * b \<or> 0 < c * c"
    using assms by (auto simp add: zero_less_mult_iff)
  ultimately show ?thesis by linarith
qed

lemma normalizeVector_pt:
  assumes "a \<noteq> 0 \<or> b \<noteq> 0 \<or> c \<noteq> 0"
  shows "normalizeVector (pt a b c)
           = pt (a / sqrt (a * a + b * b + c * c)) (b / sqrt (a * a + b * b + c * c))
                (c / sqrt (a * a + b * b + c * c))"
proof -
  have "0 < a * a + b * b + c * c"
    using assms by (rule sum_squares_pos)
  then have "0 < sqrt (a * a + b * b + c * c)" by simp
  then show ?thesis
    by (simp add: normalizeVector_def pt_def fgt_def Let_def)
qed



lemma calculateNormal_pt:
  fixes a1 a2 a3 b1 b2 b3 c1 c2 c3 :: real
  defines "cx \<equiv> (b2 - a2) * (c3 - a3) - (b3 - a3) * (c2 - a2)"
    and "cy \<equiv> (b3 - a3) * (c1 - a1) - (b1 - a1) * (c3 - a3)"
    and "cz \<equiv> (b1 - a1) * (c2 - a2) - (b2 - a2) * (c1 - a1)"
  shows "calculateNormal (pt a1 a2 a3) (pt b1 b2 b3) (pt c1 c2 c3)
     = (if \<bar>cx\<bar> < eps \<and> \<bar>cy\<bar> < eps \<and> \<bar>cz\<bar> < eps
        then Inl (SkylineError ValidationError ''degenerate triangle'' None)
        else Inr (pt (cx / sqrt (cx * cx + cy * cy + cz * cz))
                     (cy / sqrt (cx * cx + cy * cy + cz * cz))
                     (cz / sqrt (cx * cx + cy * cy + cz * cz))))"
proof -
  have v: "IsValid (pt a1 a2 a3)" "IsValid (pt b1 b2 b3)" "IsValid (pt c1 c2 c3)"
    by (auto simp add: IsValid_pt)
  have nz: "cx \<noteq> 0 \<or> cy \<noteq> 0 \<or> cz \<noteq> 0"
    if "\<not> (\<bar>cx\<bar> < eps \<and> \<bar>cy\<bar> < eps \<and> \<bar>cz\<bar> < eps)"
    using that eps_pos by auto
  show ?thesis
    unfolding calculateNormal_valid [OF v] cross_pt isZeroVector_pt
    using nz normalizeVector_pt [of cx cy cz]
    by (simp add: cx_def cy_def cz_def)
qed






text \<open>
  C6: \<^verbatim>\<open>CreateQuad\<close> takes the normal of \<open>v1, v2, v3\<close> only and never looks at the second
  triangle \<open>v1, v3, v4\<close>. With \<open>v4 = v1\<close> it succeeds and emits a second triangle of
  area zero, one for which \<^verbatim>\<open>calculateNormal\<close> itself reports a degenerate triangle.
\<close>

theorem CreateQuad_second_triangle:
  "CreateQuad (pt 0 0 0) (pt 1 0 0) (pt 1 1 0) (pt 0 0 0)
     = Inr [\<lparr>Normal = pt 0 0 1, V1 = pt 0 0 0, V2 = pt 1 0 0, V3 = pt 1 1 0\<rparr>,
            \<lparr>Normal = pt 0 0 1, V1 = pt 0 0 0, V2 = pt 1 1 0, V3 = pt 0 0 0\<rparr>] \<and>
   calculateNormal (pt 0 0 0) (pt 1 1 0) (pt 0 0 0)
     = Inl (SkylineError ValidationError ''degenerate triangle'' None)"
  by (simp add: CreateQuad_def calculateNormal_pt eps_def)

section \<open>Boxes with a zero or negative dimension\<close>

lemma fadd_zero: "fadd x (Num 0) = x"
  by (cases x) simp_all

lemma calculateNormal_error_type:
  "calculateNormal p1 p2 p3 = Inl e \<Longrightarrow> errType e = Some ValidationError"
  by (cases "IsValid p1 \<and> IsValid p2 \<and> IsValid p3")
    (auto simp add: calculateNormal_valid calculateNormal_invalid split: if_splits)

lemma calculateNormal_first_twice: "\<exists>e. calculateNormal p p q = Inl e"
proof (cases "IsValid p \<and> IsValid q")
  case True
  then obtain a1 a2 a3 c1 c2 c3 where "p = pt a1 a2 a3" "q = pt c1 c2 c3"
    unfolding IsValid_pt by blast
  then show ?thesis
    by (simp add: calculateNormal_pt eps_pos)
next
  case False
  then show ?thesis
    by (auto simp add: calculateNormal_invalid)
qed

lemma calculateNormal_last_twice: "\<exists>e. calculateNormal p q q = Inl e"
proof (cases "IsValid p \<and> IsValid q")
  case True
  then obtain a1 a2 a3 c1 c2 c3 where "p = pt a1 a2 a3" "q = pt c1 c2 c3"
    unfolding IsValid_pt by blast
  then show ?thesis
    by (simp add: calculateNormal_pt eps_pos)
next
  case False
  then show ?thesis
    by (auto simp add: calculateNormal_invalid)
qed

lemma Wrap_errType: "errType (Wrap e message) = (case errType e of None \<Rightarrow> Some STLError | t \<Rightarrow> t)"
  by (cases e) simp_all

lemma CreateQuad_error_type:
  "CreateQuad v1 v2 v3 v4 = Inl e \<Longrightarrow> errType e = Some ValidationError"
  by (auto simp add: CreateQuad_def Wrap_errType split: sum.splits
      dest: calculateNormal_error_type)

lemma CreateQuad_fails:
  "calculateNormal v1 v2 v3 = Inl e \<Longrightarrow> \<exists>e'. CreateQuad v1 v2 v3 v4 = Inl e'"
  by (simp add: CreateQuad_def)

lemma boxQuads_error:
  "boxQuads vs qs acc = Inl e \<Longrightarrow>
   \<exists>cause. e = SkylineError STLError ''failed to create quad'' (Some cause) \<and>
     errType cause = Some ValidationError"
proof (induction vs qs acc rule: boxQuads.induct)
  case (1 vs acc)
  then show ?case by simp
next
  case (2 vs a b c d qs acc)
  then show ?case
    by (auto simp add: New_def split: sum.splits dest: CreateQuad_error_type)
qed

lemma boxQuads_fails:
  "(a, b, c, d) \<in> set qs \<Longrightarrow> CreateQuad (vs ! a) (vs ! b) (vs ! c) (vs ! d) = Inl e \<Longrightarrow>
   \<exists>e'. boxQuads vs qs acc = Inl e'"
proof (induction vs qs acc rule: boxQuads.induct)
  case (1 vs acc)
  then show ?case by simp
next
  case (2 vs a' b' c' d' qs acc)
  then show ?case
    by (auto split: sum.splits)
qed

lemma createBox_negative:
  "flt width (Num 0) \<or> flt height (Num 0) \<or> flt depth (Num 0) \<Longrightarrow>
   createBox x y z width height depth
     = Inl (SkylineError ValidationError ''negative dimensions not allowed'' None)"
  by (auto simp add: createBox_def New_def)

lemma createBox_zero:
  assumes "\<not> (flt width (Num 0) \<or> flt height (Num 0) \<or> flt depth (Num 0))"
    and "width = Num 0 \<or> height = Num 0 \<or> depth = Num 0"
  shows "\<exists>cause. createBox x y z width height depth
           = Inl (SkylineError STLError ''failed to create quad'' (Some cause)) \<and>
         errType cause = Some ValidationError"
proof -
  let ?vs = "boxVertices x y z width height depth"
  have "\<exists>a b c d e. (a, b, c, d) \<in> set quads \<and>
          CreateQuad (?vs ! a) (?vs ! b) (?vs ! c) (?vs ! d) = Inl e"
  proof -
    consider "width = Num 0" | "height = Num 0" | "depth = Num 0"
      using assms(2) by blast
    then show ?thesis
    proof cases
      case 1
      then have "?vs ! 1 = ?vs ! 0"
        by (simp add: boxVertices_def fadd_zero)
      then obtain e where "CreateQuad (?vs ! 0) (?vs ! 1) (?vs ! 2) (?vs ! 3) = Inl e"
        using calculateNormal_first_twice [of "?vs ! 0" "?vs ! 2"] CreateQuad_fails
        by metis
      moreover have "(0, 1, 2, 3) \<in> set quads"
        by (simp add: quads_def)
      ultimately show ?thesis by blast
    next
      case 2
      then have "?vs ! 2 = ?vs ! 1"
        by (simp add: boxVertices_def fadd_zero)
      then obtain e where "CreateQuad (?vs ! 0) (?vs ! 1) (?vs ! 2) (?vs ! 3) = Inl e"
        using calculateNormal_last_twice [of "?vs ! 0" "?vs ! 1"] CreateQuad_fails
        by metis
      moreover have "(0, 1, 2, 3) \<in> set quads"
        by (simp add: quads_def)
      ultimately show ?thesis by blast
    next
      case 3
      then have "?vs ! 4 = ?vs ! 0"
        by (simp add: boxVertices_def fadd_zero)
      then obtain e where "CreateQuad (?vs ! 4) (?vs ! 0) (?vs ! 3) (?vs ! 7) = Inl e"
        using calculateNormal_first_twice [of "?vs ! 0" "?vs ! 3"] CreateQuad_fails
        by metis
      moreover have "(4, 0, 3, 7) \<in> set quads"
        by (simp add: quads_def)
      ultimately show ?thesis by blast
    qed
  qed
  then obtain e' where "boxQuads ?vs quads [] = Inl e'"
    using boxQuads_fails by blast
  then show ?thesis
    using assms(1) boxQuads_error [of ?vs quads "[]" e']
    by (auto simp add: createBox_def)
qed

text \<open>
  C7, as stated, fails on the kind of the error: a zero dimension passes the check of the
  dimensions, which refuses negative ones only, and the box fails later, on a degenerate
  quad, with an \<^verbatim>\<open>STLError\<close> and not with the validation error of the dimensions.
\<close>

theorem zero_dimension_error:
  "createBox (Num 0) (Num 0) (Num 0) (Num 0) (Num 1) (Num 1)
     = Inl (SkylineError STLError ''failed to create quad''
         (Some (SkylineError ValidationError
            ''failed to calculate quad normal: degenerate triangle'' None))) \<and>
   CreateColumn (Num 0) (Num 0) (Num 0) (Num 2)
     = Inl (SkylineError STLError ''failed to create quad''
         (Some (SkylineError ValidationError
            ''failed to calculate quad normal: degenerate triangle'' None)))"
  by (simp add: CreateColumn_def createBox_def boxVertices_def quads_def CreateQuad_def
      calculateNormal_def validateVector_def IsValid_def vectorSubtract_def vectorCross_def
      isZeroVector_def epsilon_def eps_pos fsub_def New_def Let_def)

text \<open>
  C7, as amended: for every dimension triple with a negative component \<^verbatim>\<open>createBox\<close>
  and \<^verbatim>\<open>CreateColumn\<close> fail with the validation error ``negative dimensions not
  allowed''; for every triple with a zero component and no negative one, when the finite
  ones among the corner coordinates and the sizes are at most \<open>2^1000\<close> in magnitude (so
  that no sum or difference of them overflows), they fail with the \<^verbatim>\<open>STLError\<close>
  ``failed to create quad'', caused by a validation error of the quad (a degenerate
  triangle, or an invalid vertex). Either way no triangle is emitted.
\<close>

theorem createBox_zero_or_negative:
  "(flt width (Num 0) \<or> flt height (Num 0) \<or> flt depth (Num 0) \<longrightarrow>
      createBox x y z width height depth
        = Inl (SkylineError ValidationError ''negative dimensions not allowed'' None)) \<and>
   (moderate x \<and> moderate y \<and> moderate z \<and>
    moderate width \<and> moderate height \<and> moderate depth \<and>
    \<not> (flt width (Num 0) \<or> flt height (Num 0) \<or> flt depth (Num 0)) \<and>
    (width = Num 0 \<or> height = Num 0 \<or> depth = Num 0) \<longrightarrow>
      (\<exists>cause. createBox x y z width height depth
                  = Inl (SkylineError STLError ''failed to create quad'' (Some cause)) \<and>
               errType cause = Some ValidationError)) \<and>
   (flt cellSize (Num 0) \<or> flt colHeight (Num 0) \<longrightarrow>
      CreateColumn x y colHeight cellSize
        = Inl (SkylineError ValidationError ''negative dimensions not allowed'' None)) \<and>
   (moderate x \<and> moderate y \<and> moderate cellSize \<and> moderate colHeight \<and>
    \<not> (flt cellSize (Num 0) \<or> flt colHeight (Num 0)) \<and>
    (cellSize = Num 0 \<or> colHeight = Num 0) \<longrightarrow>
      (\<exists>cause. CreateColumn x y colHeight cellSize
                  = Inl (SkylineError STLError ''failed to create quad'' (Some cause)) \<and>
               errType cause = Some ValidationError))"
proof (intro conjI impI)
  assume "flt width (Num 0) \<or> flt height (Num 0) \<or> flt depth (Num 0)"
  then show "createBox x y z width height depth
      = Inl (SkylineError ValidationError ''negative dimensions not allowed'' None)"
    by (rule createBox_negative)
next
  assume "moderate x \<and> moderate y \<and> moderate z \<and>
    moderate width \<and> moderate height \<and> moderate depth \<and>
    \<not> (flt width (Num 0) \<or> flt height (Num 0) \<or> flt depth (Num 0)) \<and>
    (width = Num 0 \<or> height = Num 0 \<or> depth = Num 0)"
  then show "\<exists>cause. createBox x y z width height depth
                  = Inl (SkylineError STLError ''failed to create quad'' (Some cause)) \<and>
               errType cause = Some ValidationError"
    by (intro createBox_zero) blast+
next
  assume "flt cellSize (Num 0) \<or> flt colHeight (Num 0)"
  then show "CreateColumn x y colHeight cellSize
      = Inl (SkylineError ValidationError ''negative dimensions not allowed'' None)"
    unfolding CreateColumn_def by (intro createBox_negative) blast
next
  assume "moderate x \<and> moderate y \<and> moderate cellSize \<and> moderate colHeight \<and>
    \<not> (flt cellSize (Num 0) \<or> flt colHeight (Num 0)) \<and>
    (cellSize = Num 0 \<or> colHeight = Num 0)"
  then show "\<exists>cause. CreateColumn x y colHeight cellSize
                  = Inl (SkylineError STLError ''failed to create quad'' (Some cause)) \<and>
               errType cause = Some ValidationError"
    unfolding CreateColumn_def by (intro createBox_zero) blast+
qed

theorem createBox_zero_or_negative_witness:
  "createBox (Num 0) (Num 0) (Num 0) (Num (- 1)) (Num (- 1)) (Num (- 1))
     = Inl (SkylineError ValidationError ''negative dimensions not allowed'' None) \<and>
   (\<exists>cause. createBox (Num 0) (Num 0) (Num 0) (Num 0) (Num 0) (Num 0)
               = Inl (SkylineError STLError ''failed to create quad'' (Some cause)) \<and>
             errType cause = Some ValidationError) \<and>
   CreateColumn (Num 0) (Num 0) (Num (- 1)) (Num (- 1))
     = Inl (SkylineError ValidationError ''negative dimensions not allowed'' None) \<and>
   (\<exists>cause. CreateColumn (Num 0) (Num 0) (Num 0) (Num 2)
               = Inl (SkylineError STLError ''failed to create quad'' (Some cause)) \<and>
             errType cause = Some ValidationError)"
  using createBox_zero_or_negative [of "Num (- 1)" "Num (- 1)" "Num (- 1)" "Num 0" "Num 0" "Num 0"
      "Num (- 1)" "Num (- 1)"]
    createBox_zero_or_negative [of "Num 0" "Num 0" "Num 0" "Num 0" "Num 0" "Num 0"
      "Num 2" "Num 0"]
  by simp

section \<open>The generator\<close>

lemma calculateDimensions_years:
  "0 < n \<Longrightarrow> calculateDimensions (int n) = Inr (yearDims n)"
  by (simp add: calculateDimensions_def CalculateMultiYearDimensions_def GridSize_def
      CellSize_def float64_of_int_def yearDims_def Let_def algebra_simps)

lemma GenerateSTLRange_validated:
  assumes "Debug E ''Starting STL generation for user %s, years %d-%d'' = None"
    and "validateInput first outputPath username = None"
  shows "GenerateSTLRange E order (first # later) outputPath username startYear endYear =
     (let contributions = first # later;
          dims = yearDims (Suc (length later));
          maxContribution = findMaxContributionsAcrossYears contributions;
          cs = [CallValidateInput first,
                CallGenerateModelGeometry contributions dims maxContribution]
      in case generateModelGeometry E order contributions dims maxContribution
                username startYear endYear of
           Blocks \<Rightarrow> \<lparr>result = Blocks, calls = cs\<rparr>
         | Panics \<Rightarrow> \<lparr>result = Panics, calls = cs\<rparr>
         | Returns (Inl e) \<Rightarrow>
             \<lparr>result = Returns (Some (Wrap e ''failed to generate geometry'')), calls = cs\<rparr>
         | Returns (Inr modelTriangles) \<Rightarrow> writeModel E outputPath cs modelTriangles)"
proof -
  have "calculateDimensions (int (Suc (length later))) = Inr (yearDims (Suc (length later)))"
    by (rule calculateDimensions_years) simp
  then show ?thesis
    using assms by (simp add: GenerateSTLRange_def Let_def)
qed

lemma GenerateSTLRange_rejected:
  assumes "Debug E ''Starting STL generation for user %s, years %d-%d'' = None"
    and "validateInput first outputPath username = Some e"
  shows "GenerateSTLRange E order (first # later) outputPath username startYear endYear =
           \<lparr>result = Returns (Some (Wrap e ''input validation failed'')),
            calls = [CallValidateInput first]\<rparr>"
  using assms by (simp add: GenerateSTLRange_def)

text \<open>
  C10: only the first year is validated. Whatever the later years of a multi-year input
  are (empty, nil, longer than the grid), when the first year has between 1 and
  \<open>GridSize\<close> weeks (and the path and the user name are not empty) the validation passes,
  the only call of \<^verbatim>\<open>validateInput\<close> is the one on the first year, and all the years
  reach \<^verbatim>\<open>generateModelGeometry\<close>. With zero years the run panics on
  \<^verbatim>\<open>contributions[0]\<close> before any validation: no call has been made.
\<close>

theorem only_first_year_validated:
  "(Debug E ''Starting STL generation for user %s, years %d-%d'' = None \<and>
    later \<noteq> [] \<and> 0 < length first \<and> int (length first) \<le> GridSize \<and>
    outputPath \<noteq> [] \<and> username \<noteq> [] \<longrightarrow>
      validateInput first outputPath username = None \<and>
      take 2 (calls (GenerateSTLRange E order (first # later) outputPath username startYear endYear))
        = [CallValidateInput first,
           CallGenerateModelGeometry (first # later) (yearDims (length (first # later)))
             (findMaxContributionsAcrossYears (first # later))]) \<and>
   (Debug E ''Starting STL generation for user %s, years %d-%d'' = None \<longrightarrow>
      GenerateSTLRange E order [] outputPath username startYear endYear
        = \<lparr>result = Panics, calls = []\<rparr>)"
proof (intro conjI impI)
  assume a: "Debug E ''Starting STL generation for user %s, years %d-%d'' = None \<and>
    later \<noteq> [] \<and> 0 < length first \<and> int (length first) \<le> GridSize \<and>
    outputPath \<noteq> [] \<and> username \<noteq> []"
  then show v: "validateInput first outputPath username = None"
    by (simp add: validateInput_def)
  show "take 2 (calls (GenerateSTLRange E order (first # later) outputPath username startYear endYear))
        = [CallValidateInput first,
           CallGenerateModelGeometry (first # later) (yearDims (length (first # later)))
             (findMaxContributionsAcrossYears (first # later))]"
    using a v
    by (simp add: GenerateSTLRange_validated Let_def writeModel_def
        split: outcome.splits sum.splits option.splits)
next
  assume "Debug E ''Starting STL generation for user %s, years %d-%d'' = None"
  then show "GenerateSTLRange E order [] outputPath username startYear endYear
        = \<lparr>result = Panics, calls = []\<rparr>"
    by (simp add: GenerateSTLRange_def)
qed

theorem only_first_year_validated_witness:
  "validateInput emptyYear ''skyline.stl'' ''user'' = None \<and>
   take 2 (calls (GenerateSTLRange quietEnv [Base, Columns, Text, Image]
             [emptyYear, [], replicate 54 []] ''skyline.stl'' ''user'' 2021 2023))
     = [CallValidateInput emptyYear,
        CallGenerateModelGeometry [emptyYear, [], replicate 54 []] (yearDims 3)
          (findMaxContributionsAcrossYears [emptyYear, [], replicate 54 []])] \<and>
   GenerateSTLRange quietEnv [Base, Columns, Text, Image] [] ''skyline.stl'' ''user'' 2021 2023
     = \<lparr>result = Panics, calls = []\<rparr>"
proof -
  have d: "Debug quietEnv ''Starting STL generation for user %s, years %d-%d'' = None"
    by (simp add: quietEnv_def Debug_def logf_def)
  show ?thesis
  using only_first_year_validated [of quietEnv "[[], replicate 54 []]" emptyYear
      "''skyline.stl''" "''user''" "[Base, Columns, Text, Image]" 2021 2023] d
  by (simp add: emptyYear_def GridSize_def numeral_3_eq_3)
qed

lemma columnsOfWeek_quiet:
  "\<forall>day \<in> set week. ContributionCount day \<le> 0 \<Longrightarrow>
   columnsOfWeek baseYOffset maxContrib weekIdx dayIdx week acc = Inr acc"
  by (induction week arbitrary: dayIdx) simp_all

lemma columnsOfYear_quiet:
  "\<forall>week \<in> set weeks. \<forall>day \<in> set week. ContributionCount day \<le> 0 \<Longrightarrow>
   columnsOfYear baseYOffset maxContrib weekIdx weeks acc = Inr acc"
  by (induction weeks arbitrary: weekIdx) (simp_all add: columnsOfWeek_quiet)

lemma emptyYear_quiet: "\<forall>week \<in> set emptyYear. \<forall>day \<in> set week. ContributionCount day \<le> 0"
  by (simp add: emptyYear_def emptyDay_def)

lemma CreateContributionGeometry_emptyYear:
  "CreateContributionGeometry emptyYear yearIndex maxContrib = Inr []"
  by (simp add: CreateContributionGeometry_def Let_def columnsOfYear_quiet [OF emptyYear_quiet])

lemma yearsLoop_emptyYears:
  "n \<le> k \<Longrightarrow> yearsLoop E (replicate k emptyYear) maxContrib n acc = Some acc"
  by (induction n arbitrary: acc) (simp_all add: CreateContributionGeometry_emptyYear Let_def)

lemma generateColumns_emptyYears:
  "generateColumnsForYearRange E (replicate k emptyYear) maxContrib
     = Some \<lparr>triangles = [], err = None\<rparr>"
  by (simp add: generateColumnsForYearRange_def yearsLoop_emptyYears)

lemma findMaxContributions_emptyYear: "findMaxContributions emptyYear = 0"
  by (simp add: findMaxContributions_def emptyYear_def emptyDay_def eval_nat_numeral)

lemma findMax_emptyYears: "foldl (\<lambda>maxContrib yearContributions.
              (let yearMax = findMaxContributions yearContributions
               in if yearMax > maxContrib then yearMax else maxContrib)) 0 (replicate k emptyYear) = 0"
  by (induction k) (simp_all add: findMaxContributions_emptyYear)

lemma findMaxAcrossYears_emptyYears:
  "findMaxContributionsAcrossYears (replicate k emptyYear) = 0"
  by (simp add: findMaxContributionsAcrossYears_def findMax_emptyYears)

lemma generateBase_yearDims:
  "generateBase E (yearDims n)
     = Some \<lparr>triangles = boxTriangles 0 0 (- 10) (275 / 2) (35 / 2 * real n + 5) 10, err = None\<rparr>"
proof -
  have "createBox (Num 0) (Num 0) (Num (- 10)) (Num (275 / 2)) (Num (35 / 2 * real n + 5)) (Num 10)
          = Inr (boxTriangles 0 0 (- 10) (275 / 2) (35 / 2 * real n + 5) 10)"
  proof (rule createBox_Num)
    have n: "0 \<le> real n" by simp
    then show "0 \<le> 35 / 2 * real n + 5" by linarith
    have "275 / 2 * (35 / 2 * real n + 5) = 9625 / 4 * real n + 1375 / 2"
      by (simp add: algebra_simps)
    then show "eps \<le> 275 / 2 * (35 / 2 * real n + 5)"
      using n by (simp add: eps_def)
    have "(35 / 2 * real n + 5) * 10 = 175 * real n + 50"
      by (simp add: algebra_simps)
    then show "eps \<le> (35 / 2 * real n + 5) * 10"
      using n by (simp add: eps_def)
  qed (simp_all add: eps_def)
  then show ?thesis
    by (simp add: generateBase_def CreateCuboidBase_def BaseHeight_def yearDims_def)
qed

text \<open>
  C3, as stated, fails on its third case: the grid-size bound is checked on the number
  of weeks of the first year, not on the number of years. A run on 54 years, one more than
  \<open>GridSize\<close>, passes the validation, builds the geometry and writes the file.
\<close>

theorem too_many_years_accepted:
  "GridSize < int (length (replicate 54 emptyYear)) \<and>
   GenerateSTLRange quietEnv [Base, Columns, Text, Image] (replicate 54 emptyYear)
     ''skyline.stl'' ''user'' 1970 2023
     = \<lparr>result = Returns None,
        calls = [CallValidateInput emptyYear,
                 CallGenerateModelGeometry (replicate 54 emptyYear) (yearDims 54) 0,
                 CallWriteSTLBinary ''skyline.stl'' (boxTriangles 0 0 (- 10) (275 / 2) 950 10)]\<rparr>"
proof -
  have r: "replicate 54 emptyYear = emptyYear # replicate 53 emptyYear"
    by (simp add: eval_nat_numeral)
  have d: "Debug quietEnv ''Starting STL generation for user %s, years %d-%d'' = None"
    by (simp add: quietEnv_def Debug_def logf_def)
  have v: "validateInput emptyYear ''skyline.stl'' ''user'' = None"
    by (simp add: validateInput_def emptyYear_def GridSize_def)
  have g: "generateModelGeometry quietEnv [Base, Columns, Text, Image] (replicate 54 emptyYear)
             (yearDims 54) 0 ''user'' 1970 2023
           = Returns (Inr (boxTriangles 0 0 (- 10) (275 / 2) 950 10))"
    using generateBase_yearDims [of quietEnv 54]
    by (simp add: generateModelGeometry_def producers_def generateColumns_emptyYears
        generateText_def generateLogo_def quietEnv_def)
  have w: "writeModel quietEnv ''skyline.stl'' cs ts
           = \<lparr>result = Returns None, calls = cs @ [CallWriteSTLBinary ''skyline.stl'' ts]\<rparr>" for cs ts
    by (simp add: writeModel_def quietEnv_def Info_def Debug_def logf_def)
  have "GenerateSTLRange quietEnv [Base, Columns, Text, Image] (emptyYear # replicate 53 emptyYear)
     ''skyline.stl'' ''user'' 1970 2023
     = \<lparr>result = Returns None,
        calls = [CallValidateInput emptyYear,
                 CallGenerateModelGeometry (replicate 54 emptyYear) (yearDims 54) 0,
                 CallWriteSTLBinary ''skyline.stl'' (boxTriangles 0 0 (- 10) (275 / 2) 950 10)]\<rparr>"
    unfolding GenerateSTLRange_validated [OF d v]
    using g findMaxAcrossYears_emptyYears [of 54]
    by (simp add: Let_def w flip: r)
  then show ?thesis
    by (simp add: GridSize_def flip: r)
qed

text \<open>
  C3, as amended: for every input of at least one year whose first year is empty or has
  more weeks than \<open>GridSize\<close>, once the opening debug message is logged, the run is
  rejected with a validation error; the only call made is the validation of the first
  year: no geometry is attempted and nothing is written.
\<close>

theorem first_year_rejected:
  assumes "Debug E ''Starting STL generation for user %s, years %d-%d'' = None"
    and "length first = 0 \<or> GridSize < int (length first)"
  shows "\<exists>e. GenerateSTLRange E order (first # later) outputPath username startYear endYear
                = \<lparr>result = Returns (Some e), calls = [CallValidateInput first]\<rparr> \<and>
              errType e = Some ValidationError"
proof -
  have "\<exists>e. validateInput first outputPath username = Some e \<and>
          errType e = Some ValidationError"
    using assms(2) by (cases "first = []") (simp_all add: validateInput_def New_def)
  then obtain e where e: "validateInput first outputPath username = Some e"
    and t: "errType e = Some ValidationError"
    by blast
  show ?thesis
    using GenerateSTLRange_rejected [OF assms(1) e] t
    by (simp add: Wrap_errType)
qed

theorem first_year_rejected_witness:
  "(\<exists>e. GenerateSTLRange quietEnv [Base, Columns, Text, Image] [[]] ''skyline.stl'' ''user'' 2023 2023
           = \<lparr>result = Returns (Some e), calls = [CallValidateInput []]\<rparr> \<and>
         errType e = Some ValidationError) \<and>
   (\<exists>e. GenerateSTLRange quietEnv [Base, Columns, Text, Image] [replicate 54 [], emptyYear]
           ''skyline.stl'' ''user'' 2022 2023
           = \<lparr>result = Returns (Some e), calls = [CallValidateInput (replicate 54 [])]\<rparr> \<and>
         errType e = Some ValidationError)"
  using first_year_rejected [of quietEnv "[]" "[Base, Columns, Text, Image]" "[]"
      "''skyline.stl''" "''user''" 2023 2023]
    first_year_rejected [of quietEnv "replicate 54 []" "[Base, Columns, Text, Image]" "[emptyYear]"
      "''skyline.stl''" "''user''" 2022 2023]
  by (simp add: quietEnv_def Debug_def logf_def GridSize_def)

section \<open>The assembler\<close>

lemma collect_returns:
  "collect channels order acc = Returns (Inr ts) \<longleftrightarrow>
     (\<forall>c \<in> set order. \<exists>r. channels c = Some r \<and> err r = None) \<and>
     ts = acc @ concat (map (contribution channels) order)"
proof (induction order arbitrary: acc)
  case Nil
  show ?case by auto
next
  case (Cons c cs)
  show ?case
  proof (cases "channels c")
    case None
    then show ?thesis by auto
  next
    case (Some r)
    show ?thesis
    proof (cases "err r")
      case None
      with Some Cons show ?thesis
        by (simp add: contribution_def)
    next
      case (Some e)
      with \<open>channels c = Some r\<close> show ?thesis by auto
    qed
  qed
qed

lemma mset_concat_map:
  assumes "mset order1 = mset order2"
  shows "mset (concat (map f order1)) = mset (concat (map f order2))"
proof -
  have "mset (concat (map f order)) = sum_mset (image_mset (\<lambda>c. mset (f c)) (mset order))"
    for order
    by (induction order) simp_all
  then show ?thesis
    using assms by simp
qed

lemma generateModelGeometry_returns:
  "generateModelGeometry E order contributionsPerYear dims maxContrib username startYear endYear
     = Returns (Inr ts) \<longleftrightarrow>
   contributionsPerYear \<noteq> [] \<and>
   (\<forall>c \<in> set order.
      \<exists>r. producers E contributionsPerYear dims maxContrib username startYear endYear c = Some r \<and>
          err r = None) \<and>
   ts = concat (map (contribution
          (producers E contributionsPerYear dims maxContrib username startYear endYear)) order)"
  by (simp add: generateModelGeometry_def collect_returns)

text \<open>
  C8, as stated, fails: the lists are concatenated in the order in which the map of the
  channels is ranged over, and Go does not fix that order. Two runs on the same input, one
  reading the channels as base, columns, text, image and one starting with the image,
  hand different triangle sequences to the serializer.
\<close>

theorem assembly_order_differs:
  "mset [Image, Base, Columns, Text] = mset [Base, Columns, Text, Image] \<and>
   generateModelGeometry emblemEnv [Base, Columns, Text, Image] [emptyYear] (yearDims 1) 0
       ''user'' 2023 2023
     = Returns (Inr (boxTriangles 0 0 (- 10) (275 / 2) (45 / 2) 10 @ [emblemTriangle])) \<and>
   generateModelGeometry emblemEnv [Image, Base, Columns, Text] [emptyYear] (yearDims 1) 0
       ''user'' 2023 2023
     = Returns (Inr (emblemTriangle # boxTriangles 0 0 (- 10) (275 / 2) (45 / 2) 10)) \<and>
   boxTriangles 0 0 (- 10) (275 / 2) (45 / 2) 10 @ [emblemTriangle]
     \<noteq> emblemTriangle # boxTriangles 0 0 (- 10) (275 / 2) (45 / 2) 10"
proof -
  have c: "generateColumnsForYearRange emblemEnv [emptyYear] 0 = Some \<lparr>triangles = [], err = None\<rparr>"
    using generateColumns_emptyYears [of emblemEnv 1 0] by simp
  show ?thesis
    using generateBase_yearDims [of emblemEnv 1] c
    by (simp add: generateModelGeometry_def producers_def generateText_def generateLogo_def
        emblemEnv_def quietEnv_def boxTriangles_def emblemTriangle_def pt_def)
qed

text \<open>
  C8, as amended: for a fixed input, the assembled sequence is the concatenation of the
  four producers' lists in the order in which the channels are read, which is not fixed.
  Two runs that both visit each channel once agree on the triangles with their
  multiplicities, not on their order: when one run returns a triangle list, so does the
  other, and the two lists are permutations of one another.
\<close>

theorem assembly_order:
  assumes "mset order1 = mset [Base, Columns, Text, Image]"
    and "mset order2 = mset [Base, Columns, Text, Image]"
    and "generateModelGeometry E order1 contributionsPerYear dims maxContrib username
           startYear endYear = Returns (Inr ts1)"
  shows "ts1 = concat (map (contribution
                 (producers E contributionsPerYear dims maxContrib username startYear endYear))
                 order1) \<and>
         (\<exists>ts2. generateModelGeometry E order2 contributionsPerYear dims maxContrib username
                   startYear endYear = Returns (Inr ts2) \<and>
                 ts2 = concat (map (contribution
                   (producers E contributionsPerYear dims maxContrib username startYear endYear))
                   order2) \<and>
                 mset ts2 = mset ts1)"
proof -
  let ?ch = "producers E contributionsPerYear dims maxContrib username startYear endYear"
  have 1: "contributionsPerYear \<noteq> []"
    and 2: "\<forall>c \<in> set order1. \<exists>r. ?ch c = Some r \<and> err r = None"
    and 3: "ts1 = concat (map (contribution ?ch) order1)"
    using assms(3) by (simp_all add: generateModelGeometry_returns)
  have "mset order1 = mset order2"
    using assms(1,2) by simp
  then have "set order2 = set order1"
    by (metis set_mset_mset)
  with 2 have "\<forall>c \<in> set order2. \<exists>r. ?ch c = Some r \<and> err r = None"
    by simp
  with 1 have "generateModelGeometry E order2 contributionsPerYear dims maxContrib username
                 startYear endYear = Returns (Inr (concat (map (contribution ?ch) order2)))"
    by (simp add: generateModelGeometry_returns)
  moreover have "mset (concat (map (contribution ?ch) order2)) = mset ts1"
    unfolding 3 using \<open>mset order1 = mset order2\<close> mset_concat_map by metis
  ultimately show ?thesis
    using 3 by simp
qed

theorem assembly_order_witness:
  "\<exists>ts2. generateModelGeometry emblemEnv [Image, Base, Columns, Text] [emptyYear] (yearDims 1) 0
            ''user'' 2023 2023 = Returns (Inr ts2) \<and>
          mset ts2 = mset (boxTriangles 0 0 (- 10) (275 / 2) (45 / 2) 10 @ [emblemTriangle])"
proof -
  have c: "generateColumnsForYearRange emblemEnv [emptyYear] 0 = Some \<lparr>triangles = [], err = None\<rparr>"
    using generateColumns_emptyYears [of emblemEnv 1 0] by simp
  have "generateModelGeometry emblemEnv [Base, Columns, Text, Image] [emptyYear] (yearDims 1) 0
       ''user'' 2023 2023
     = Returns (Inr (boxTriangles 0 0 (- 10) (275 / 2) (45 / 2) 10 @ [emblemTriangle]))"
    using generateBase_yearDims [of emblemEnv 1] c
    by (simp add: generateModelGeometry_def producers_def generateText_def generateLogo_def
        emblemEnv_def quietEnv_def)
  moreover have "mset [Base, Columns, Text, Image] = mset [Base, Columns, Text, Image]"
    by simp
  moreover have "mset [Image, Base, Columns, Text] = mset [Base, Columns, Text, Image]"
    by simp
  ultimately show ?thesis
    using assembly_order [of "[Base, Columns, Text, Image]" "[Image, Base, Columns, Text]"
        emblemEnv "[emptyYear]" "yearDims 1" 0 "''user''" 2023 2023
        "boxTriangles 0 0 (- 10) (275 / 2) (45 / 2) 10 @ [emblemTriangle]"]
    by blast
qed

section \<open>Failing producers\<close>








end
